theory Spec2Isabelle
  imports Complex_Main
begin

section \<open>Data model\<close>

text \<open>
  The program is \<^verbatim>\<open>src/meeting_app/cli.py\<close>. A Python \<^verbatim>\<open>str\<close> is a sequence of Unicode
  code points; it is modelled as a list of code points (natural numbers), so that
  \<^verbatim>\<open>len\<close>, slicing and membership count what Python counts. ASCII literals of the
  source are written with \<open>u\<close>.
\<close>

type_synonym ustring = "nat list"

definition u :: "string \<Rightarrow> ustring" where
  "u s = map of_char s"

text \<open>
  Exceptions of class \<^verbatim>\<open>Exception\<close>, other than \<^verbatim>\<open>HTTPError\<close>, that can be raised inside
  the \<^verbatim>\<open>try\<close> of \<^verbatim>\<open>call_llm\<close>: by the subscripting of the decoded response
  (\<^verbatim>\<open>KeyError\<close>, \<^verbatim>\<open>IndexError\<close>, \<^verbatim>\<open>TypeError\<close>) or by \<^verbatim>\<open>_post_chat\<close> itself (connection
  failure, timeout, undecodable body), the latter with the text \<^verbatim>\<open>str(e)\<close>.
\<close>

datatype failure = KeyError ustring | IndexError | TypeError | OtherFailure ustring

text \<open>What the modelled functions raise.\<close>

datatype error =
    RangeStepZero \<comment> \<open>\<^verbatim>\<open>ValueError\<close>: \<^verbatim>\<open>range()\<close> arg 3 must not be zero\<close>
  | SleepNegative \<comment> \<open>\<^verbatim>\<open>ValueError\<close>: \<^verbatim>\<open>time.sleep\<close> of a negative length\<close>
  | LMStudioHTTP int ustring \<comment> \<open>\<^verbatim>\<open>RuntimeError(f"LM Studio HTTP {e.code}: {body}")\<close>\<close>
  | LMStudioError failure \<comment> \<open>\<^verbatim>\<open>RuntimeError(f"LM Studio error: {e}")\<close>\<close>
  | JoinTypeError \<comment> \<open>\<^verbatim>\<open>TypeError\<close>: \<^verbatim>\<open>str.join\<close> over an item that is not a \<^verbatim>\<open>str\<close>\<close>
  | WriteTypeError \<comment> \<open>\<^verbatim>\<open>TypeError\<close>: \<^verbatim>\<open>write_text\<close> of a value that is not a \<^verbatim>\<open>str\<close>\<close>
  | FileNotFound \<comment> \<open>\<^verbatim>\<open>FileNotFoundError\<close>: \<^verbatim>\<open>read_text\<close> of a path that does not exist\<close>

section \<open>Chunker\<close>

text \<open>
  \<^verbatim>\<open>range(0, n, step)\<close> for a length \<open>n\<close>: a zero step raises, a negative step gives the
  empty range, a positive step gives \<open>0, step, 2 * step, \<dots>\<close> below \<open>n\<close>.
\<close>

definition py_range0 :: "nat \<Rightarrow> int \<Rightarrow> error + nat list" where
  "py_range0 n step =
     (if step = 0 then Inl RangeStepZero
      else if step < 0 then Inr []
      else Inr (map (\<lambda>j. j * nat step) [0..<(n + nat step - 1) div nat step]))"

text \<open>\<^verbatim>\<open>xs[i:j]\<close> for \<open>0 \<le> i \<le> j\<close>; the slice is clipped at the end of the list.\<close>

definition py_slice :: "'a list \<Rightarrow> nat \<Rightarrow> nat \<Rightarrow> 'a list" where
  "py_slice xs i j = take (j - i) (drop i xs)"

text \<open>
  \<^verbatim>\<open>
  def chunk_text(text, size):
      return [text[i:i + size] for i in range(0, len(text), size)]
  \<close>
\<close>

definition chunk_text :: "'a list \<Rightarrow> int \<Rightarrow> error + 'a list list" where
  "chunk_text text sz =
     (case py_range0 (length text) sz of
        Inl e \<Rightarrow> Inl e
      | Inr starts \<Rightarrow> Inr (map (\<lambda>i. py_slice text i (i + nat sz)) starts))"

section \<open>Completion client\<close>

text \<open>
  The tunables that the program reads from the environment once, at import time.
  \<open>RETRIES\<close> is \<^verbatim>\<open>int(os.environ.get("RETRIES", "4"))\<close>, \<open>BACKOFF_BASE\<close> is
  \<^verbatim>\<open>float(os.environ.get("BACKOFF_BASE", "1.5"))\<close>; floats are modelled as reals.
\<close>

record config =
  RETRIES :: int
  BACKOFF_BASE :: real
  DEFAULT_CHUNK_SIZE :: int
  PART_MAX :: int
  FINAL_MAX :: int
  TRANSLATE_MAX :: int
  TEMP_SUMMARY :: real
  TEMP_TRANSLATE :: real

text \<open>The value decoded by \<^verbatim>\<open>json.loads\<close>; a dict is the list of its items, \<^verbatim>\<open>None\<close> is \<open>JNull\<close>.\<close>

datatype json =
    JNull
  | JBool bool
  | JNum real
  | JStr ustring
  | JArr "json list"
  | JObj "(ustring \<times> json) list"

text \<open>\<^verbatim>\<open>x[key]\<close> for a string key, and \<^verbatim>\<open>x[0]\<close>, with the exceptions Python raises.\<close>

fun subscript_key :: "json \<Rightarrow> ustring \<Rightarrow> failure + json" where
  "subscript_key (JObj items) key =
     (case map_of items key of None \<Rightarrow> Inl (KeyError key) | Some v \<Rightarrow> Inr v)"
| "subscript_key _ key = Inl TypeError"

fun subscript_0 :: "json \<Rightarrow> failure + json" where
  "subscript_0 (JArr []) = Inl IndexError"
| "subscript_0 (JArr (x # xs)) = Inr x"
| "subscript_0 (JStr []) = Inl IndexError"
| "subscript_0 (JStr (c # cs)) = Inr (JStr [c])"
| "subscript_0 (JObj items) = Inl (KeyError (u ''0''))"
| "subscript_0 _ = Inl TypeError"

text \<open>\<^verbatim>\<open>out["choices"][0]["message"]["content"]\<close>\<close>

definition get_content :: "json \<Rightarrow> failure + json" where
  "get_content out =
     (case subscript_key out (u ''choices'') of
        Inl f \<Rightarrow> Inl f
      | Inr choices \<Rightarrow>
          (case subscript_0 choices of
             Inl f \<Rightarrow> Inl f
           | Inr choice \<Rightarrow>
               (case subscript_key choice (u ''message'') of
                  Inl f \<Rightarrow> Inl f
                | Inr msg \<Rightarrow> subscript_key msg (u ''content''))))"

record message =
  role :: ustring
  content :: ustring

record payload =
  model :: ustring
  messages :: "message list"
  temperature :: real
  max_tokens :: int

text \<open>
  What one \<^verbatim>\<open>_post_chat(payload)\<close> does: it returns the decoded response, or raises
  \<^verbatim>\<open>HTTPError\<close> with a status code and a body, or raises another exception with a text.
  The endpoint is the environment of the program: its answer may depend on the
  number of requests made before and on the payload.
\<close>

datatype post_result = Response json | HTTPError int ustring | Raises ustring

type_synonym endpoint = "nat \<Rightarrow> payload \<Rightarrow> post_result"

text \<open>The effects on the outside world, in the order they happen.\<close>

datatype event = Post payload | Sleep real

type_synonym world = "event list"

fun is_post :: "event \<Rightarrow> bool" where
  "is_post (Post p) = True"
| "is_post (Sleep s) = False"

definition n_posts :: "world \<Rightarrow> nat" where
  "n_posts w = length (filter is_post w)"

definition post_chat :: "endpoint \<Rightarrow> payload \<Rightarrow> world \<Rightarrow> post_result \<times> world" where
  "post_chat ep p w = (ep (n_posts w) p, w @ [Post p])"

text \<open>\<^verbatim>\<open>time.sleep(s)\<close> raises \<^verbatim>\<open>ValueError\<close> for a negative length.\<close>

definition py_sleep :: "real \<Rightarrow> world \<Rightarrow> error + world" where
  "py_sleep s w = (if s < 0 then Inl SleepNegative else Inr (w @ [Sleep s]))"

text \<open>
  The body of the loop of \<^verbatim>\<open>call_llm\<close>, after \<^verbatim>\<open>_post_chat\<close> has answered: return the
  content, raise, or sleep and \<^verbatim>\<open>continue\<close>.
  \<^verbatim>\<open>
        try:
            out = _post_chat(payload)
            return out["choices"][0]["message"]["content"]
        except urllib.error.HTTPError as e:
            body = e.read().decode("utf-8", errors="ignore")
            if e.code in (429, 500, 503, 504) and attempt < RETRIES:
                sleep_s = BACKOFF_BASE ** attempt
                time.sleep(sleep_s)
                continue
            raise RuntimeError(f"LM Studio HTTP {e.code}: {body}") from e
        except Exception as e:
            if attempt < RETRIES:
                sleep_s = BACKOFF_BASE ** attempt
                time.sleep(sleep_s)
                continue
            raise RuntimeError(f"LM Studio error: {e}") from e
  \<close>
  The two \<^verbatim>\<open>print\<close> calls before the sleeps are not modelled.
\<close>

datatype outcome = Return json | Raise error | Retry real

definition on_exception :: "config \<Rightarrow> int \<Rightarrow> failure \<Rightarrow> outcome" where
  "on_exception cfg attempt f =
     (if attempt < RETRIES cfg then Retry (BACKOFF_BASE cfg ^ nat attempt)
      else Raise (LMStudioError f))"

definition attempt_outcome :: "config \<Rightarrow> int \<Rightarrow> post_result \<Rightarrow> outcome" where
  "attempt_outcome cfg attempt r =
     (case r of
        Response out \<Rightarrow>
          (case get_content out of
             Inr c \<Rightarrow> Return c
           | Inl f \<Rightarrow> on_exception cfg attempt f)
      | HTTPError code body \<Rightarrow>
          (if code \<in> {429, 500, 503, 504} \<and> attempt < RETRIES cfg
           then Retry (BACKOFF_BASE cfg ^ nat attempt)
           else Raise (LMStudioHTTP code body))
      | Raises txt \<Rightarrow> on_exception cfg attempt (OtherFailure txt))"

text \<open>
  \<^verbatim>\<open>for attempt in range(1, RETRIES + 1)\<close>, from \<open>attempt\<close> on. When the range is
  exhausted the function falls off its end and returns \<^verbatim>\<open>None\<close>.
\<close>

function call_llm_loop ::
  "config \<Rightarrow> endpoint \<Rightarrow> payload \<Rightarrow> int \<Rightarrow> world \<Rightarrow> (error + json) \<times> world" where
  "call_llm_loop cfg ep p attempt w =
     (if attempt \<le> RETRIES cfg then
        (case post_chat ep p w of
           (r, w1) \<Rightarrow>
             (case attempt_outcome cfg attempt r of
                Return c \<Rightarrow> (Inr c, w1)
              | Raise e \<Rightarrow> (Inl e, w1)
              | Retry s \<Rightarrow>
                  (case py_sleep s w1 of
                     Inl e \<Rightarrow> (Inl e, w1)
                   | Inr w2 \<Rightarrow> call_llm_loop cfg ep p (attempt + 1) w2)))
      else (Inr JNull, w))"
  by pat_completeness auto
termination
  by (relation "measure (\<lambda>(cfg, ep, p, attempt, w). nat (RETRIES cfg + 1 - attempt))") auto

declare call_llm_loop.simps [simp del]

definition call_llm ::
  "config \<Rightarrow> endpoint \<Rightarrow> ustring \<Rightarrow> message list \<Rightarrow> int \<Rightarrow> real \<Rightarrow> world
     \<Rightarrow> (error + json) \<times> world" where
  "call_llm cfg ep model_id msgs max_tok temp w =
     call_llm_loop cfg ep
       \<lparr>model = model_id, messages = msgs, temperature = temp, max_tokens = max_tok\<rparr> 1 w"

section \<open>Prompt templates\<close>

text \<open>
  The string literals of \<^verbatim>\<open>summarize_parts\<close>, \<^verbatim>\<open>summarize_final_two_step\<close> and
  \<^verbatim>\<open>translate_to_pl\<close>, code points outside ASCII written as numbers. A template
  with one placeholder is the function that \<^verbatim>\<open>str.format\<close> computes from it.
\<close>

definition part_system_pl :: ustring where
  "part_system_pl =
     u ''Jeste'' @ [347] @ u '' precyzyjnym analitykiem spotka'' @ [324]
     @ u ''. Odpowiadasz po polsku.''"

definition part_user_tpl_pl :: "ustring \<Rightarrow> ustring" where
  "part_user_tpl_pl part =
     u ''Podsumuj poni'' @ [380]
     @ u ''szy fragment transkrypcji spotkania.\<newline>\<newline>Zwr'' @ [243] @ [263]
     @ u '':\<newline>- Najwa'' @ [380]
     @ u ''niejsze punkty\<newline>- Decyzje\<newline>- Zadania do wykonania\<newline>- ''
     @ u ''Ryzyka\<newline>\<newline>Transkrypcja:\<newline>''
     @ part @ u ''\<newline>''"

definition part_system_en :: ustring where
  "part_system_en =
     u ''You are precise and structured.''"

definition part_user_tpl_en :: "ustring \<Rightarrow> ustring" where
  "part_user_tpl_en part =
     u ''Summarize this meeting section.\<newline>\<newline>Return:\<newline>- ''
     @ u ''Key points\<newline>- Decisions\<newline>- Action items\<newline>- ''
     @ u ''Risks\<newline>\<newline>Transcript:\<newline>''
     @ part @ u ''\<newline>''"

definition reduce_system_pl :: ustring where
  "reduce_system_pl =
     u ''Jeste'' @ [347] @ u '' precyzyjnym analitykiem spotka'' @ [324]
     @ u ''. Odpowiadasz po polsku.''"

definition reduce_system_en :: ustring where
  "reduce_system_en =
     u ''You are a precise meeting analyst.''"

definition reduce_user_tpl_pl :: "ustring \<Rightarrow> ustring" where
  "reduce_user_tpl_pl items =
     u ''Po'' @ [322] @ [261] @ u ''cz poni'' @ [380] @ u ''sze cz'' @ [281] @ [347]
     @ u ''ciowe podsumowania w JEDNO kr'' @ [243]
     @ u ''tkie podsumowanie.\<newline>\<newline>Zwr'' @ [243] @ [263]
     @ u '':\<newline>- Najwa'' @ [380]
     @ u ''niejsze punkty\<newline>- Decyzje\<newline>- Zadania do wykonania\<newline>- ''
     @ u ''Ryzyka\<newline>\<newline>Podsumowania:\<newline>''
     @ items @ u ''\<newline>''"

definition reduce_user_tpl_en :: "ustring \<Rightarrow> ustring" where
  "reduce_user_tpl_en items =
     u ''Combine the following partial summaries into ONE compact summary.\<newline>\<newline>Return:\<newline>- ''
     @ u ''Key points\<newline>- Decisions\<newline>- Action items\<newline>- ''
     @ u ''Risks\<newline>\<newline>Summaries:\<newline>''
     @ items @ u ''\<newline>''"

definition final_system_pl :: ustring where
  "final_system_pl =
     u ''Jeste'' @ [347] @ u '' asystentem zarz'' @ [261]
     @ u ''du. Odpowiadasz po polsku, rzeczowo i klarownie.''"

definition final_system_en :: ustring where
  "final_system_en =
     u ''You are a precise executive assistant.''"

definition final_user_tpl_pl :: "ustring \<Rightarrow> ustring" where
  "final_user_tpl_pl items =
     u ''Na podstawie poni'' @ [380] @ u ''szych podsumowa'' @ [324]
     @ u '' przygotuj JEDNO finalne podsumowanie spotkania.\<newline>\<newline>Struktura:\<newline>1) ''
     @ u ''Podsumowanie wykonawcze (5'' @ [8211] @ u ''8 zda'' @ [324]
     @ u '')\<newline>2) Decyzje kluczowe\<newline>3) Zadania do wykonania\<newline>4) ''
     @ u ''Ryzyka\<newline>\<newline>Podsumowania:\<newline>''
     @ items @ u ''\<newline>''"

definition final_user_tpl_en :: "ustring \<Rightarrow> ustring" where
  "final_user_tpl_en items =
     u ''Based on the summaries below, create ONE final executive summary.\<newline>\<newline>Structure:\<newline>1) ''
     @ u ''Executive Summary (5'' @ [8211]
     @ u ''8 sentences)\<newline>2) Key decisions\<newline>3) Action items\<newline>4) ''
     @ u ''Risks\<newline>\<newline>Summaries:\<newline>''
     @ items @ u ''\<newline>''"

definition translate_prompt :: "ustring \<Rightarrow> ustring" where
  "translate_prompt text =
     u ''Przet'' @ [322] @ u ''umacz poni'' @ [380] @ u ''szy tekst na j'' @ [281]
     @ u ''zyk polski.\<newline>Zachowaj struktur'' @ [281]
     @ u '' i nie dodawaj nowych informacji.\<newline>\<newline>''
     @ text @ u ''\<newline>''"

definition translate_system :: ustring where
  "translate_system =
     u ''T'' @ [322] @ u ''umacz profesjonalnie na j'' @ [281] @ u ''zyk polski.''"

section \<open>Map stage\<close>

definition system_user :: "ustring \<Rightarrow> ustring \<Rightarrow> message list" where
  "system_user sys usr =
     [\<lparr>role = u ''system'', content = sys\<rparr>, \<lparr>role = u ''user'', content = usr\<rparr>]"

text \<open>
  \<^verbatim>\<open>
    for part in tqdm(parts, desc=bar_label):
        prompt = user_tpl.format(part=part)
        summaries.append(call_llm(model_id, [...], max_tokens=PART_MAX, temperature=TEMP_SUMMARY))
  \<close>
  An exception of \<^verbatim>\<open>call_llm\<close> ends the loop and the function.
\<close>

fun summarize_parts_loop ::
  "config \<Rightarrow> endpoint \<Rightarrow> ustring \<Rightarrow> ustring \<Rightarrow> (ustring \<Rightarrow> ustring) \<Rightarrow> ustring list
     \<Rightarrow> json list \<Rightarrow> world \<Rightarrow> (error + json list) \<times> world" where
  "summarize_parts_loop cfg ep model_id system_msg user_tpl [] summaries w = (Inr summaries, w)"
| "summarize_parts_loop cfg ep model_id system_msg user_tpl (part # parts) summaries w =
     (case call_llm cfg ep model_id (system_user system_msg (user_tpl part))
             (PART_MAX cfg) (TEMP_SUMMARY cfg) w of
        (Inl e, w1) \<Rightarrow> (Inl e, w1)
      | (Inr s, w1) \<Rightarrow>
          summarize_parts_loop cfg ep model_id system_msg user_tpl parts (summaries @ [s]) w1)"

definition summarize_parts ::
  "config \<Rightarrow> endpoint \<Rightarrow> ustring \<Rightarrow> ustring \<Rightarrow> int \<Rightarrow> ustring \<Rightarrow> world
     \<Rightarrow> (error + json list) \<times> world" where
  "summarize_parts cfg ep model_id text chunk_size lang w =
     (case chunk_text text chunk_size of
        Inl e \<Rightarrow> (Inl e, w)
      | Inr parts \<Rightarrow>
          (if lang = u ''pl''
           then summarize_parts_loop cfg ep model_id part_system_pl part_user_tpl_pl parts [] w
           else summarize_parts_loop cfg ep model_id part_system_en part_user_tpl_en parts [] w))"

section \<open>Reduce stage\<close>

text \<open>\<^verbatim>\<open>sep.join(items)\<close>: a \<^verbatim>\<open>TypeError\<close> when an item is not a \<^verbatim>\<open>str\<close>.\<close>

fun str_of :: "json \<Rightarrow> ustring option" where
  "str_of (JStr s) = Some s"
| "str_of _ = None"

fun join :: "ustring \<Rightarrow> ustring list \<Rightarrow> ustring" where
  "join sep [] = []"
| "join sep [x] = x"
| "join sep (x # y # ys) = x @ sep @ join sep (y # ys)"

definition py_join :: "ustring \<Rightarrow> json list \<Rightarrow> error + ustring" where
  "py_join sep items =
     (case those (map str_of items) of
        None \<Rightarrow> Inl JoinTypeError
      | Some ss \<Rightarrow> Inr (join sep ss))"

text \<open>
  \<^verbatim>\<open>
    n = len(partial_summaries)
    if n <= 6:
        group_size = 3
    elif n <= 12:
        group_size = 4
    else:
        group_size = 3
  \<close>
\<close>

definition group_size :: "nat \<Rightarrow> int" where
  "group_size n = (if n \<le> 6 then 3 else if n \<le> 12 then 4 else 3)"

text \<open>
  \<^verbatim>\<open>
    for i in range(0, n, group_size):
        group = partial_summaries[i:i + group_size]
        reduced_summary = call_llm(model_id, [... reduce_user_tpl.format(items=chr(10).join(group)) ...],
                                   max_tokens=PART_MAX, temperature=TEMP_SUMMARY)
        reduced.append(reduced_summary)
  \<close>
  The loop runs over the start indices; the arguments of \<^verbatim>\<open>call_llm\<close> are evaluated
  before the call, so a \<^verbatim>\<open>TypeError\<close> of \<^verbatim>\<open>join\<close> comes before any request.
\<close>

fun reduce_loop ::
  "config \<Rightarrow> endpoint \<Rightarrow> ustring \<Rightarrow> ustring \<Rightarrow> (ustring \<Rightarrow> ustring) \<Rightarrow> json list \<Rightarrow> int
     \<Rightarrow> nat list \<Rightarrow> json list \<Rightarrow> world \<Rightarrow> (error + json list) \<times> world" where
  "reduce_loop cfg ep model_id reduce_system reduce_user_tpl partial_summaries gs [] reduced w =
     (Inr reduced, w)"
| "reduce_loop cfg ep model_id reduce_system reduce_user_tpl partial_summaries gs (i # is) reduced w =
     (case py_join [10] (py_slice partial_summaries i (i + nat gs)) of
        Inl e \<Rightarrow> (Inl e, w)
      | Inr items \<Rightarrow>
          (case call_llm cfg ep model_id (system_user reduce_system (reduce_user_tpl items))
                  (PART_MAX cfg) (TEMP_SUMMARY cfg) w of
             (Inl e, w1) \<Rightarrow> (Inl e, w1)
           | (Inr reduced_summary, w1) \<Rightarrow>
               reduce_loop cfg ep model_id reduce_system reduce_user_tpl partial_summaries gs is
                 (reduced @ [reduced_summary]) w1))"

text \<open>
  \<^verbatim>\<open>
    final_summary = call_llm(model_id, [... final_user_tpl.format(items=chr(10).join(reduced)) ...],
                             max_tokens=FINAL_MAX, temperature=TEMP_SUMMARY)
    return final_summary
  \<close>
\<close>

definition final_combine ::
  "config \<Rightarrow> endpoint \<Rightarrow> ustring \<Rightarrow> ustring \<Rightarrow> (ustring \<Rightarrow> ustring) \<Rightarrow> json list \<Rightarrow> world
     \<Rightarrow> (error + json) \<times> world" where
  "final_combine cfg ep model_id final_system final_user_tpl reduced w =
     (case py_join [10] reduced of
        Inl e \<Rightarrow> (Inl e, w)
      | Inr items \<Rightarrow>
          call_llm cfg ep model_id (system_user final_system (final_user_tpl items))
            (FINAL_MAX cfg) (TEMP_SUMMARY cfg) w)"

definition two_step ::
  "config \<Rightarrow> endpoint \<Rightarrow> ustring \<Rightarrow> json list
     \<Rightarrow> ustring \<Rightarrow> (ustring \<Rightarrow> ustring) \<Rightarrow> ustring \<Rightarrow> (ustring \<Rightarrow> ustring) \<Rightarrow> world
     \<Rightarrow> (error + json) \<times> world" where
  "two_step cfg ep model_id partial_summaries reduce_system reduce_user_tpl
       final_system final_user_tpl w =
     (case py_range0 (length partial_summaries) (group_size (length partial_summaries)) of
        Inl e \<Rightarrow> (Inl e, w)
      | Inr starts \<Rightarrow>
          (case reduce_loop cfg ep model_id reduce_system reduce_user_tpl partial_summaries
                  (group_size (length partial_summaries)) starts [] w of
             (Inl e, w1) \<Rightarrow> (Inl e, w1)
           | (Inr reduced, w1) \<Rightarrow>
               final_combine cfg ep model_id final_system final_user_tpl reduced w1))"

definition summarize_final_two_step ::
  "config \<Rightarrow> endpoint \<Rightarrow> ustring \<Rightarrow> json list \<Rightarrow> ustring \<Rightarrow> world
     \<Rightarrow> (error + json) \<times> world" where
  "summarize_final_two_step cfg ep model_id partial_summaries lang w =
     (if lang = u ''pl''
      then two_step cfg ep model_id partial_summaries
             reduce_system_pl reduce_user_tpl_pl final_system_pl final_user_tpl_pl w
      else two_step cfg ep model_id partial_summaries
             reduce_system_en reduce_user_tpl_en final_system_en final_user_tpl_en w)"

text \<open>
  \<^verbatim>\<open>
  def translate_to_pl(model_id, text):
      prompt = f"""..."""
      return call_llm(model_id, [...], max_tokens=TRANSLATE_MAX, temperature=TEMP_TRANSLATE)
  \<close>
\<close>

definition translate_to_pl ::
  "config \<Rightarrow> endpoint \<Rightarrow> ustring \<Rightarrow> ustring \<Rightarrow> world \<Rightarrow> (error + json) \<times> world" where
  "translate_to_pl cfg ep model_id text w =
     call_llm cfg ep model_id (system_user translate_system (translate_prompt text))
       (TRANSLATE_MAX cfg) (TEMP_TRANSLATE cfg) w"

section \<open>Stage cache\<close>

text \<open>
  The artifacts of one meeting: the files of the output directory, by name, with their
  text. The byte encoding and the line-ending translation of the text layer are not
  modelled: a text that was written is read back as it was written.
\<close>

type_synonym files = "ustring \<rightharpoonup> ustring"

definition read_text_utf8 :: "files \<Rightarrow> ustring \<Rightarrow> error + ustring" where
  "read_text_utf8 fs path = (case fs path of None \<Rightarrow> Inl FileNotFound | Some t \<Rightarrow> Inr t)"

definition write_text_utf8 :: "files \<Rightarrow> ustring \<Rightarrow> json \<Rightarrow> error + files" where
  "write_text_utf8 fs path text =
     (case str_of text of None \<Rightarrow> Inl WriteTypeError | Some t \<Rightarrow> Inr (fs(path \<mapsto> t)))"

text \<open>\<^verbatim>\<open>try: path.unlink() except Exception: pass\<close>\<close>

definition unlink :: "files \<Rightarrow> ustring \<Rightarrow> files" where
  "unlink fs path = fs(path := None)"

definition summary_file :: ustring where
  "summary_file = u ''summary_final.txt''"

definition summary_pl_file :: ustring where
  "summary_pl_file = u ''summary_final_pl.txt''"

text \<open>
  \<^verbatim>\<open>
        partial = summarize_parts(summary_model, transcript, DEFAULT_CHUNK_SIZE, lang)
        final_summary = summarize_final_two_step(summary_model, partial, lang)
        write_text_utf8(summary_file, final_summary)
  \<close>
\<close>

definition make_summary ::
  "config \<Rightarrow> endpoint \<Rightarrow> ustring \<Rightarrow> ustring \<Rightarrow> ustring \<Rightarrow> files \<Rightarrow> world
     \<Rightarrow> (error + json) \<times> files \<times> world" where
  "make_summary cfg ep summary_model transcript lang fs w =
     (case summarize_parts cfg ep summary_model transcript (DEFAULT_CHUNK_SIZE cfg) lang w of
        (Inl e, w1) \<Rightarrow> (Inl e, fs, w1)
      | (Inr partial, w1) \<Rightarrow>
          (case summarize_final_two_step cfg ep summary_model partial lang w1 of
             (Inl e, w2) \<Rightarrow> (Inl e, fs, w2)
           | (Inr final_summary, w2) \<Rightarrow>
               (case write_text_utf8 fs summary_file final_summary of
                  Inl e \<Rightarrow> (Inl e, fs, w2)
                | Inr fs' \<Rightarrow> (Inr final_summary, fs', w2))))"

text \<open>
  Step [4/4] of \<^verbatim>\<open>main\<close>. \<open>use_sum_cache\<close> is the value of
  \<^verbatim>\<open>input(...).strip().lower() != "n"\<close>, asked only when the file exists. The result is
  the value of \<^verbatim>\<open>final_summary\<close> after the step.
  \<^verbatim>\<open>
    if summary_file.exists():
        use_sum_cache = input(...).strip().lower() != "n"
        if use_sum_cache:
            final_summary = read_text_utf8(summary_file)
        else:
            try: summary_file.unlink()
            except Exception: pass
            ... make the summary ...
    else:
        ... make the summary ...
  \<close>
\<close>

definition summary_stage ::
  "config \<Rightarrow> endpoint \<Rightarrow> ustring \<Rightarrow> ustring \<Rightarrow> ustring \<Rightarrow> bool \<Rightarrow> files \<Rightarrow> world
     \<Rightarrow> (error + json) \<times> files \<times> world" where
  "summary_stage cfg ep summary_model transcript lang use_sum_cache fs w =
     (if summary_file \<in> dom fs then
        (if use_sum_cache then
           (case read_text_utf8 fs summary_file of
              Inl e \<Rightarrow> (Inl e, fs, w)
            | Inr t \<Rightarrow> (Inr (JStr t), fs, w))
         else make_summary cfg ep summary_model transcript lang (unlink fs summary_file) w)
      else make_summary cfg ep summary_model transcript lang fs w)"

text \<open>
  The translation step of \<^verbatim>\<open>main\<close>. \<open>use_tr_cache\<close> and \<open>translate\<close> are the values of
  the two \<^verbatim>\<open>input(...).strip().lower() != "n"\<close>.
  \<^verbatim>\<open>
    if lang == "en":
        if summary_pl_file.exists():
            use_tr_cache = input(...).strip().lower() != "n"
            if not use_tr_cache:
                try: summary_pl_file.unlink()
                except Exception: pass
        if not summary_pl_file.exists():
            if input(...).strip().lower() != "n":
                final_pl = translate_to_pl(translate_model, final_summary)
                write_text_utf8(summary_pl_file, final_pl)
  \<close>
\<close>

definition translation_stage ::
  "config \<Rightarrow> endpoint \<Rightarrow> ustring \<Rightarrow> ustring \<Rightarrow> ustring \<Rightarrow> bool \<Rightarrow> bool \<Rightarrow> files \<Rightarrow> world
     \<Rightarrow> (error + unit) \<times> files \<times> world" where
  "translation_stage cfg ep translate_model final_summary lang use_tr_cache translate fs w =
     (if lang = u ''en'' then
        (let fs1 = (if summary_pl_file \<in> dom fs \<and> \<not> use_tr_cache
                    then unlink fs summary_pl_file else fs)
         in if summary_pl_file \<notin> dom fs1 \<and> translate then
              (case translate_to_pl cfg ep translate_model final_summary w of
                 (Inl e, w1) \<Rightarrow> (Inl e, fs1, w1)
               | (Inr final_pl, w1) \<Rightarrow>
                   (case write_text_utf8 fs1 summary_pl_file final_pl of
                      Inl e \<Rightarrow> (Inl e, fs1, w1)
                    | Inr fs2 \<Rightarrow> (Inr (), fs2, w1)))
            else (Inr (), fs1, w))
      else (Inr (), fs, w))"

section \<open>Language gate\<close>

text \<open>\<^verbatim>\<open>PL_CHARS = set("...")\<close>: the nine Polish letters with diacritics, small and capital.\<close>

definition PL_CHARS :: "nat set" where
  "PL_CHARS = {261, 263, 281, 322, 324, 243, 347, 380, 378,
               260, 262, 280, 321, 323, 211, 346, 379, 377}"

text \<open>The alternatives of the two patterns, in the order of the source.\<close>

definition pl_stop :: "ustring list" where
  "pl_stop = [u ''i'', [380] @ u ''e'', u ''nie'', u ''si'' @ [281], u ''jest'', u ''dla'', u ''z'',
              u ''na'', u ''do'', u ''w'', u ''oraz'', u ''tak'', u ''tego'', u ''te'' @ [380],
              u ''czy'', u ''jak'']"

definition en_stop :: "ustring list" where
  "en_stop = [u ''the'', u ''and'', u ''to'', u ''of'', u ''in'', u ''is'', u ''for'', u ''we'',
              u ''you'', u ''that'', u ''it'', u ''with'', u ''this'', u ''are'']"

text \<open>
  The pattern \<^verbatim>\<open>\b(w1|w2|...)\b\<close>. Which characters are word characters (\<^verbatim>\<open>\w\<close>) is
  decided by the Unicode database of the interpreter; it is the parameter \<open>isw\<close>.
  \<^verbatim>\<open>\b\<close> holds between two positions when exactly one of the characters before and
  after is a word character; the start and the end of the text count as non-word.
\<close>

definition is_word_opt :: "(nat \<Rightarrow> bool) \<Rightarrow> nat option \<Rightarrow> bool" where
  "is_word_opt isw c = (case c of None \<Rightarrow> False | Some x \<Rightarrow> isw x)"

definition next_char :: "ustring \<Rightarrow> nat option" where
  "next_char rest = (case rest of [] \<Rightarrow> None | c # cs \<Rightarrow> Some c)"

definition word_boundary :: "(nat \<Rightarrow> bool) \<Rightarrow> nat option \<Rightarrow> ustring \<Rightarrow> bool" where
  "word_boundary isw prev rest = (is_word_opt isw prev \<noteq> is_word_opt isw (next_char rest))"

text \<open>
  The alternatives are tried in order at the current position; one matches when it is
  a prefix of the rest of the text and \<^verbatim>\<open>\b\<close> holds after it. The patterns of the source
  have no empty alternative; an empty one is skipped here.
\<close>

fun match_alts :: "(nat \<Rightarrow> bool) \<Rightarrow> ustring list \<Rightarrow> ustring \<Rightarrow> ustring option" where
  "match_alts isw [] rest = None"
| "match_alts isw (a # as) rest =
     (if a \<noteq> [] \<and> take (length a) rest = a
         \<and> word_boundary isw (Some (last a)) (drop (length a) rest)
      then Some a else match_alts isw as rest)"

definition match_here ::
  "(nat \<Rightarrow> bool) \<Rightarrow> ustring list \<Rightarrow> nat option \<Rightarrow> ustring \<Rightarrow> ustring option" where
  "match_here isw alts prev rest =
     (if word_boundary isw prev rest then match_alts isw alts rest else None)"

lemma match_alts_nonempty: "match_alts isw alts rest = Some a \<Longrightarrow> a \<noteq> []"
  by (induction alts) (auto split: if_splits)

text \<open>
  \<^verbatim>\<open>len(re.findall(pattern, text))\<close>: the scan goes from left to right; after a match it
  goes on at the end of the match, otherwise one character further. \<open>prev\<close> is the
  character before the current position.
\<close>

function findall_count ::
  "(nat \<Rightarrow> bool) \<Rightarrow> ustring list \<Rightarrow> nat option \<Rightarrow> ustring \<Rightarrow> nat" where
  "findall_count isw alts prev [] = 0"
| "findall_count isw alts prev (c # cs) =
     (case match_here isw alts prev (c # cs) of
        None \<Rightarrow> findall_count isw alts (Some c) cs
      | Some a \<Rightarrow> Suc (findall_count isw alts (Some (last a)) (drop (length a) (c # cs))))"
  by pat_completeness auto
termination
proof (relation "measure (\<lambda>(isw, alts, prev, rest). length rest)")
  show "wf (measure (\<lambda>(isw, alts, prev, rest). length rest))" by simp
next
  fix isw :: "nat \<Rightarrow> bool" and alts :: "ustring list" and prev :: "nat option"
    and c :: nat and cs :: ustring
  show "((isw, alts, Some c, cs), (isw, alts, prev, c # cs))
          \<in> measure (\<lambda>(isw, alts, prev, rest). length rest)" by simp
next
  fix isw :: "nat \<Rightarrow> bool" and alts :: "ustring list" and prev :: "nat option"
    and c :: nat and cs :: ustring and a :: ustring
  assume "match_here isw alts prev (c # cs) = Some a"
  then have "a \<noteq> []"
    by (auto simp: match_here_def dest: match_alts_nonempty split: if_splits)
  then show "((isw, alts, Some (last a), drop (length a) (c # cs)), (isw, alts, prev, c # cs))
          \<in> measure (\<lambda>(isw, alts, prev, rest). length rest)"
    by (cases a) auto
qed

text \<open>
  \<^verbatim>\<open>
  def detect_lang_from_text(sample):
      pl_char_hits = sum(1 for c in sample if c in PL_CHARS)
      pl_words = len(re.findall(r"\b(i|...|jak)\b", sample.lower()))
      en_words = len(re.findall(r"\b(the|...|are)\b", sample.lower()))
      score_pl = pl_char_hits * 2 + pl_words
      return "pl" if score_pl >= max(2, en_words) else "en"
  \<close>
  \<^verbatim>\<open>str.lower\<close> also follows the Unicode database; it is the parameter \<open>lower\<close>.
\<close>

definition pl_char_hits :: "ustring \<Rightarrow> nat" where
  "pl_char_hits sample = length (filter (\<lambda>c. c \<in> PL_CHARS) sample)"

definition pl_words :: "(ustring \<Rightarrow> ustring) \<Rightarrow> (nat \<Rightarrow> bool) \<Rightarrow> ustring \<Rightarrow> nat" where
  "pl_words lower isw sample = findall_count isw pl_stop None (lower sample)"

definition en_words :: "(ustring \<Rightarrow> ustring) \<Rightarrow> (nat \<Rightarrow> bool) \<Rightarrow> ustring \<Rightarrow> nat" where
  "en_words lower isw sample = findall_count isw en_stop None (lower sample)"

definition score_pl :: "(ustring \<Rightarrow> ustring) \<Rightarrow> (nat \<Rightarrow> bool) \<Rightarrow> ustring \<Rightarrow> nat" where
  "score_pl lower isw sample = pl_char_hits sample * 2 + pl_words lower isw sample"

definition detect_lang_from_text ::
  "(ustring \<Rightarrow> ustring) \<Rightarrow> (nat \<Rightarrow> bool) \<Rightarrow> ustring \<Rightarrow> ustring" where
  "detect_lang_from_text lower isw sample =
     (if score_pl lower isw sample \<ge> max 2 (en_words lower isw sample)
      then u ''pl'' else u ''en'')"

text \<open>
  \<^verbatim>\<open>str.lower\<close> and \<^verbatim>\<open>\w\<close> on texts over ASCII and the Polish letters, for running the
  gate on such texts: a capital letter goes to its small letter; the word characters
  are the letters, the digits and the underscore.
\<close>

definition lower_cp :: "nat \<Rightarrow> nat" where
  "lower_cp c =
     (if 65 \<le> c \<and> c \<le> 90 then c + 32
      else if c = 211 then 243
      else if c \<in> {260, 262, 280, 321, 323, 346, 377, 379} then c + 1
      else c)"

definition lower_ascii_pl :: "ustring \<Rightarrow> ustring" where
  "lower_ascii_pl s = map lower_cp s"

definition word_ascii_pl :: "nat \<Rightarrow> bool" where
  "word_ascii_pl c =
     ((48 \<le> c \<and> c \<le> 57) \<or> (65 \<le> c \<and> c \<le> 90) \<or> c = 95 \<or> (97 \<le> c \<and> c \<le> 122)
      \<or> c \<in> PL_CHARS)"

section \<open>Notions used in the statements\<close>

text \<open>
  The exception, other than \<^verbatim>\<open>HTTPError\<close>, that an answer of the endpoint makes the
  \<^verbatim>\<open>try\<close> block of \<^verbatim>\<open>call_llm\<close> raise, if any.
\<close>

definition exception_of :: "post_result \<Rightarrow> failure option" where
  "exception_of r =
     (case r of
        Response out \<Rightarrow> (case get_content out of Inl f \<Rightarrow> Some f | Inr c \<Rightarrow> None)
      | HTTPError code body \<Rightarrow> None
      | Raises txt \<Rightarrow> Some (OtherFailure txt))"

text \<open>An answer that is a failure, but not an HTTP status outside 429, 500, 503, 504.\<close>

definition retryable :: "post_result \<Rightarrow> bool" where
  "retryable r =
     (case r of
        HTTPError code body \<Rightarrow> code \<in> {429, 500, 503, 504}
      | _ \<Rightarrow> exception_of r \<noteq> None)"

text \<open>The error that reports a failed answer.\<close>

definition raised_for :: "post_result \<Rightarrow> error" where
  "raised_for r =
     (case r of
        HTTPError code body \<Rightarrow> LMStudioHTTP code body
      | _ \<Rightarrow> (case exception_of r of Some f \<Rightarrow> LMStudioError f | None \<Rightarrow> LMStudioError TypeError))"

text \<open>
  The events of a call in which every attempt from \<open>a\<close> to \<open>b\<close> fails and is
  retried, but the last: a request, then a sleep of \<open>base ^ attempt\<close>, for each attempt
  before the last, then the last request.
\<close>

definition backoff_trace :: "real \<Rightarrow> payload \<Rightarrow> int \<Rightarrow> int \<Rightarrow> event list" where
  "backoff_trace base p a b =
     concat (map (\<lambda>attempt. [Post p, Sleep (base ^ nat attempt)]) [a..b - 1]) @ [Post p]"

text \<open>An endpoint that answers every request with a text.\<close>

definition text_reply :: "ustring \<Rightarrow> post_result" where
  "text_reply t =
     Response (JObj [(u ''choices'',
       JArr [JObj [(u ''message'', JObj [(u ''content'', JStr t)])]])])"

text \<open>
  The words of a text: its maximal runs of word characters.
\<close>

function tokens :: "(nat \<Rightarrow> bool) \<Rightarrow> ustring \<Rightarrow> ustring list" where
  "tokens isw [] = []"
| "tokens isw (c # cs) =
     (if isw c then takeWhile isw (c # cs) # tokens isw (dropWhile isw cs)
      else tokens isw cs)"
  by pat_completeness auto
termination
  by (relation "measure (\<lambda>(isw, s). length s)") (auto simp: length_dropWhile_le less_Suc_eq_le)

definition count_words :: "(nat \<Rightarrow> bool) \<Rightarrow> ustring list \<Rightarrow> ustring \<Rightarrow> nat" where
  "count_words isw stop s = length (filter (\<lambda>t. t \<in> set stop) (tokens isw s))"

section \<open>Properties of the chunker\<close>

lemma concat_slices:
  "concat (map (\<lambda>j. take k (drop (j * k) xs)) [0..<m]) = take (m * k) xs"
proof (induction m)
  case 0
  show ?case by simp
next
  case (Suc m)
  have "take (m * k) xs @ take k (drop (m * k) xs) = take (m * k + k) xs"
    by (simp add: take_add)
  with Suc show ?case by (simp add: add.commute)
qed

lemma ceil_div_cover:
  assumes "0 < (k::nat)"
  shows "n \<le> ((n + k - 1) div k) * k"
proof -
  have "(n + k - 1) mod k < k" using assms by simp
  moreover have "((n + k - 1) div k) * k + (n + k - 1) mod k = n + k - 1" by simp
  ultimately show ?thesis by linarith
qed

lemma ceil_div_tight:
  assumes "0 < (k::nat)" and "0 < n"
  shows "((n + k - 1) div k - 1) * k < n"
proof -
  have le: "((n + k - 1) div k) * k \<le> n + k - 1" by simp
  have "1 \<le> (n + k - 1) div k"
    using assms by (simp add: Suc_le_eq div_greater_zero_iff)
  then obtain q where q: "(n + k - 1) div k = Suc q"
    by (cases "(n + k - 1) div k") auto
  from le [unfolded q] have "q * k + k \<le> n + k - 1" by simp
  then have "q * k < n" using assms by linarith
  then show ?thesis unfolding q by simp
qed

lemma chunk_text_pos:
  assumes "0 < sz"
  shows "chunk_text text sz =
         Inr (map (\<lambda>j. take (nat sz) (drop (j * nat sz) text))
                  [0..<(length text + nat sz - 1) div nat sz])"
  using assms by (simp add: chunk_text_def py_range0_def py_slice_def comp_def)

text \<open>
  C3. For every text and every positive chunk size, \<open>chunk_text\<close> returns (without raising)
  chunks whose concatenation in order is the text; every chunk but the last has length
  exactly the chunk size; the last chunk has a length between 1 and the chunk size; and the sequence
  of chunks is empty exactly when the text is empty.
\<close>

theorem chunk_text_partition:
  assumes "0 < sz"
  shows "\<exists>cs. chunk_text text sz = Inr cs
            \<and> concat cs = text
            \<and> (\<forall>i. Suc i < length cs \<longrightarrow> int (length (cs ! i)) = sz)
            \<and> (cs \<noteq> [] \<longrightarrow> 1 \<le> length (last cs) \<and> int (length (last cs)) \<le> sz)
            \<and> (cs = [] \<longleftrightarrow> text = [])"
proof -
  define k where "k = nat sz"
  define n where "n = length text"
  define m where "m = (n + k - 1) div k"
  define cs where "cs = map (\<lambda>j. take k (drop (j * k) text)) [0..<m]"
  have k: "0 < k" and ks: "int k = sz" using assms by (simp_all add: k_def)
  have eq: "chunk_text text sz = Inr cs"
    using chunk_text_pos [OF assms] by (simp add: cs_def m_def n_def k_def)
  have cover: "n \<le> m * k" unfolding m_def by (rule ceil_div_cover [OF k])
  have cat: "concat cs = text"
    unfolding cs_def using cover by (simp add: concat_slices n_def)
  have len: "length cs = m" by (simp add: cs_def)
  have m0: "m = 0 \<longleftrightarrow> n = 0"
  proof
    assume "m = 0" with cover show "n = 0" by simp
  next
    assume "n = 0" then show "m = 0" using k by (simp add: m_def)
  qed
  have full: "int (length (cs ! i)) = sz" if "Suc i < length cs" for i
  proof -
    from that have i: "Suc i < m" by (simp add: len)
    then have "n \<noteq> 0" using m0 by auto
    then have "(m - 1) * k < n" unfolding m_def using ceil_div_tight [OF k] by simp
    moreover have "Suc i * k \<le> (m - 1) * k" using i by (intro mult_le_mono1) simp
    ultimately have "i * k + k \<le> n" by simp
    then have "length (take k (drop (i * k) text)) = k" by (simp add: n_def)
    moreover have "cs ! i = take k (drop (i * k) text)"
      using i by (simp add: cs_def)
    ultimately show ?thesis using ks by simp
  qed
  have lst: "1 \<le> length (last cs) \<and> int (length (last cs)) \<le> sz" if "cs \<noteq> []"
  proof -
    from that have mpos: "0 < m" using len by (cases m) auto
    then have "n \<noteq> 0" using m0 by auto
    then have lt: "(m - 1) * k < n" unfolding m_def using ceil_div_tight [OF k] by simp
    have "last cs = cs ! (m - 1)" using that len by (simp add: last_conv_nth)
    also have "\<dots> = take k (drop ((m - 1) * k) text)"
      using mpos by (simp add: cs_def)
    finally have "length (last cs) = min (n - (m - 1) * k) k" by (simp add: n_def)
    then show ?thesis using lt k ks by auto
  qed
  have emp: "cs = [] \<longleftrightarrow> text = []"
    using m0 len by (metis length_0_conv n_def)
  from eq cat full lst emp show ?thesis by blast
qed

theorem chunk_text_partition_witness:
  "(0::int) < 2 \<and> chunk_text [1, 2, 3, 4, 5 :: nat] 2 = Inr [[1, 2], [3, 4], [5]]"
proof -
  have h: "(0::int) < 2" by simp
  from chunk_text_partition [OF h, of "[1, 2, 3, 4, 5 :: nat]"]
  obtain cs where "chunk_text [1, 2, 3, 4, 5 :: nat] 2 = Inr cs" by blast
  moreover have "chunk_text [1, 2, 3, 4, 5 :: nat] 2 = Inr [[1, 2], [3, 4], [5]]"
    by (simp add: chunk_text_def py_range0_def py_slice_def upt_rec)
  ultimately show ?thesis by simp
qed

end
